theory Spec2Isabelle
  imports Complex_Main "HOL-Library.Sublist"
begin

section \<open>Python values, exceptions and stateful calls\<close>

text \<open>
  The two source files are \<^verbatim>\<open>src/app.py\<close> (the Flask routes, the progress table, the
  background worker and the event stream) and \<^verbatim>\<open>src/downloader.py\<close> (the class
  \<^verbatim>\<open>MediaEngine\<close> around the extraction library).

  Conventions of the embedding:
  \<^item> a Python \<^verbatim>\<open>float\<close> or \<^verbatim>\<open>int\<close> is the rational number it denotes (\<^typ>\<open>rat\<close>); the
    division and the multiplication of floats round to a double, and how they round is an
    argument of the model (\<open>float_ops\<close>), since the arithmetic is the machine's;
  \<^item> a raised \<^verbatim>\<open>Exception\<close> is a value of \<open>py_exn\<close>, and a call that may raise returns an
    \<open>outcome\<close>; a call on shared state takes the state and returns the outcome together
    with the new state, so that what was written before a raise stays written;
  \<^item> the extraction library (\<^verbatim>\<open>yt_dlp\<close>) is outside the repository: what it does during
    one call is an argument of the model.
\<close>

datatype py_exn =
    KeyError string
  | TypeError string
  | DownloadError string
  | OSError string
  | ZeroDivisionError string
  | OverflowError string
  | OtherException string

text \<open>
  \<^verbatim>\<open>str(e)\<close>. For a \<^verbatim>\<open>KeyError\<close> Python prints the \<^verbatim>\<open>repr\<close> of the key, which for a key
  without quotes, backslashes or control characters is the key between single quotes.
\<close>

fun exn_str :: "py_exn \<Rightarrow> string" where
  "exn_str (KeyError k) = [CHR 0x27] @ k @ [CHR 0x27]"
| "exn_str (TypeError m) = m"
| "exn_str (DownloadError m) = m"
| "exn_str (OSError m) = m"
| "exn_str (ZeroDivisionError m) = m"
| "exn_str (OverflowError m) = m"
| "exn_str (OtherException m) = m"

datatype 'a outcome = Returns 'a | Raises py_exn

text \<open>A dictionary entry that is read with \<^verbatim>\<open>d.get\<close>: missing, \<^verbatim>\<open>None\<close>, or a number.\<close>

datatype pyval = Absent | PyNone | Num rat

definition py_get :: "pyval \<Rightarrow> pyval \<Rightarrow> pyval" where
  "py_get v dflt = (case v of Absent \<Rightarrow> dflt | _ \<Rightarrow> v)"

definition truthy :: "pyval \<Rightarrow> bool" where
  "truthy v = (case v of Num x \<Rightarrow> x \<noteq> 0 | _ \<Rightarrow> False)"

definition py_or :: "pyval \<Rightarrow> pyval \<Rightarrow> pyval" where
  "py_or a b = (if truthy a then a else b)"

text \<open>
  The arithmetic of doubles. \<open>fl_div a b\<close> is the double that \<^verbatim>\<open>a / b\<close> gives for a divisor
  other than zero, or nothing when the quotient of two integers is beyond the doubles,
  where Python raises \<^verbatim>\<open>OverflowError\<close>; \<open>fl_mul a b\<close> is the double that \<^verbatim>\<open>a * b\<close> gives.
  Neither is the exact quotient or product in general: \<^verbatim>\<open>(4237 / 10000) * 100\<close> is
  \<^verbatim>\<open>42.370000000000005\<close>. The infinities and NaN, which floats reach only beyond \<open>10^308\<close>,
  have no counterpart here.
\<close>

record float_ops =
  fl_div :: "rat \<Rightarrow> rat \<Rightarrow> rat option"
  fl_mul :: "rat \<Rightarrow> rat \<Rightarrow> rat"

text \<open>\<^verbatim>\<open>a / b\<close> in Python: a zero divisor raises \<^verbatim>\<open>ZeroDivisionError\<close>.\<close>

definition py_truediv :: "float_ops \<Rightarrow> rat \<Rightarrow> rat \<Rightarrow> rat outcome" where
  "py_truediv ops a b =
     (if b = 0 then Raises (ZeroDivisionError ''division by zero'')
      else (case fl_div ops a b of
              None \<Rightarrow> Raises (OverflowError ''integer division result too large for a float'')
            | Some q \<Rightarrow> Returns q))"

section \<open>The progress hook (\<^verbatim>\<open>MediaEngine._create_progress_hook\<close>)\<close>

text \<open>The dictionary \<^verbatim>\<open>d\<close> that the extraction library hands to a progress hook.\<close>

record hook_dict =
  d_status :: string
  d_total_bytes :: pyval
  d_total_bytes_estimate :: pyval
  d_downloaded_bytes :: pyval
  d_speed :: pyval
  d_eta :: pyval

text \<open>
  The dictionary the hook passes to the callback. \<^verbatim>\<open>status\<close> and \<^verbatim>\<open>percentage\<close> are in
  every one of them; the other four keys only in a \<^verbatim>\<open>downloading\<close> one.
\<close>

record progress_info =
  pi_status :: string
  pi_percentage :: rat
  pi_downloaded :: pyval
  pi_total :: pyval
  pi_speed :: pyval
  pi_eta :: pyval

type_synonym 's callback = "progress_info \<Rightarrow> 's \<Rightarrow> unit outcome \<times> 's"

text \<open>\<^verbatim>\<open>total = d.get('total_bytes') or d.get('total_bytes_estimate', 0)\<close>\<close>

definition reported_total :: "hook_dict \<Rightarrow> pyval" where
  "reported_total d =
     py_or (py_get (d_total_bytes d) PyNone) (py_get (d_total_bytes_estimate d) (Num 0))"

text \<open>\<^verbatim>\<open>downloaded = d.get('downloaded_bytes', 0)\<close>\<close>

definition reported_downloaded :: "hook_dict \<Rightarrow> pyval" where
  "reported_downloaded d = py_get (d_downloaded_bytes d) (Num 0)"

text \<open>The dictionary built for a \<^verbatim>\<open>downloading\<close> event, once the percentage is computed.\<close>

definition downloading_info :: "hook_dict \<Rightarrow> rat \<Rightarrow> rat \<Rightarrow> rat \<Rightarrow> progress_info" where
  "downloading_info d n t percentage =
     \<lparr> pi_status = ''downloading'', pi_percentage = percentage,
       pi_downloaded = Num n, pi_total = Num t,
       pi_speed = py_get (d_speed d) (Num 0), pi_eta = py_get (d_eta d) (Num 0) \<rparr>"

definition finished_info :: progress_info where
  "finished_info =
     \<lparr> pi_status = ''finished'', pi_percentage = 100,
       pi_downloaded = Absent, pi_total = Absent, pi_speed = Absent, pi_eta = Absent \<rparr>"

definition error_info :: progress_info where
  "error_info =
     \<lparr> pi_status = ''error'', pi_percentage = 0,
       pi_downloaded = Absent, pi_total = Absent, pi_speed = Absent, pi_eta = Absent \<rparr>"

text \<open>
  The function \<^verbatim>\<open>hook(d)\<close> that \<^verbatim>\<open>_create_progress_hook(callback)\<close> returns. Comparing
  \<^verbatim>\<open>None\<close> with \<^verbatim>\<open>0\<close> and dividing \<^verbatim>\<open>None\<close> raise \<^verbatim>\<open>TypeError\<close> in Python 3. The percentage
  is \<^verbatim>\<open>(downloaded / total) * 100\<close>, a division and then a multiplication of doubles.
\<close>

definition hook ::
  "float_ops \<Rightarrow> 's callback option \<Rightarrow> hook_dict \<Rightarrow> 's \<Rightarrow> unit outcome \<times> 's" where
  "hook ops callback d s =
     (case callback of
        None \<Rightarrow> (Returns (), s)
      | Some cb \<Rightarrow>
          if d_status d = ''downloading'' then
            (case reported_total d of
               Num t \<Rightarrow>
                 if t > 0 then
                   (case reported_downloaded d of
                      Num n \<Rightarrow>
                        (case py_truediv ops n t of
                           Raises e \<Rightarrow> (Raises e, s)
                         | Returns q \<Rightarrow> cb (downloading_info d n t (fl_mul ops q 100)) s)
                    | _ \<Rightarrow> (Raises (TypeError ''unsupported operand type(s) for /''), s))
                 else (Returns (), s)
             | _ \<Rightarrow> (Raises (TypeError ''> not supported between NoneType and int''), s))
          else if d_status d = ''finished'' then cb finished_info s
          else if d_status d = ''error'' then cb error_info s
          else (Returns (), s))"

text \<open>A callback that only notes what it was called with, to observe the hook's calls.\<close>

definition record_call :: "progress_info list callback" where
  "record_call e seen = (Returns (), seen @ [e])"

definition forwarded :: "float_ops \<Rightarrow> hook_dict \<Rightarrow> progress_info list" where
  "forwarded ops d = snd (hook ops (Some record_call) d [])"

text \<open>What the hook itself returns or raises when the callback only notes its calls.\<close>

definition hook_outcome :: "float_ops \<Rightarrow> hook_dict \<Rightarrow> unit outcome" where
  "hook_outcome ops d = fst (hook ops (Some record_call) d [])"

section \<open>The progress table (\<^verbatim>\<open>download_progress\<close> in \<^verbatim>\<open>app.py\<close>)\<close>

type_synonym task_id = string

text \<open>
  A Progress Record is a dictionary with the keys \<^verbatim>\<open>status\<close>, \<^verbatim>\<open>percentage\<close> and
  \<^verbatim>\<open>message\<close>, and with \<^verbatim>\<open>filename\<close> and \<^verbatim>\<open>download_url\<close> in a completed one. Equality
  of records is equality of dictionaries: key by key.
\<close>

record progress =
  status :: string
  percentage :: rat
  message :: string
  filename :: "string option"
  download_url :: "string option"

type_synonym progress_table = "task_id \<rightharpoonup> progress"

text \<open>
  \<^verbatim>\<open>round(x, 1)\<close> on a float: the nearest multiple of one tenth of the value, a tie going
  to the even one.
\<close>

definition py_round1 :: "rat \<Rightarrow> rat" where
  "py_round1 x =
     (let y = x * 10; f = \<lfloor>y\<rfloor>; r = y - of_int f
      in of_int (if r < 1 / 2 then f else if 1 / 2 < r then f + 1
                 else if even f then f else f + 1) / 10)"

text \<open>
  \<^verbatim>\<open>progress_callback\<close>, the closure inside \<^verbatim>\<open>download_worker\<close>; the whole body runs with
  the lock held. How Python prints a float inside the f-string of the message is the
  argument \<open>fmt\<close>. Assigning into \<^verbatim>\<open>download_progress[task_id]\<close> of a task that is not in the
  table raises \<^verbatim>\<open>KeyError\<close>.
\<close>

definition progress_callback :: "(rat \<Rightarrow> string) \<Rightarrow> task_id \<Rightarrow> progress_table callback" where
  "progress_callback fmt task_id progress_info tbl =
     (if pi_status progress_info = ''downloading'' then
        (Returns (),
         tbl(task_id \<mapsto>
           \<lparr> status = ''downloading'',
             percentage = py_round1 (pi_percentage progress_info),
             message = ''Descargando... '' @ fmt (py_round1 (pi_percentage progress_info)) @ ''%'',
             filename = None, download_url = None \<rparr>))
      else if pi_status progress_info = ''finished'' then
        (case tbl task_id of
           None \<Rightarrow> (Raises (KeyError task_id), tbl)
         | Some r \<Rightarrow>
             (Returns (),
              tbl(task_id \<mapsto> r\<lparr> status := ''processing'', message := ''Procesando archivo...'' \<rparr>)))
      else (Returns (), tbl))"

section \<open>The engine and \<^verbatim>\<open>MediaEngine.download_media\<close>\<close>

text \<open>
  One call of \<^verbatim>\<open>ydl.extract_info(url, download=True)\<close> followed by
  \<^verbatim>\<open>ydl.prepare_filename(info)\<close>: the library fires progress hooks, the state changes in
  between (\<open>Changes\<close>: another thread acts on the shared table; on a file system, the
  library writes its files), and at the end the library returns \<^verbatim>\<open>None\<close>,
  returns an \<^verbatim>\<open>info\<close> for which it prepares a file name, or raises. What it does depends on
  the URL and on the format selector, from which the options are built.
\<close>

datatype 's engine_step = Fires hook_dict | Changes "'s \<Rightarrow> 's"

datatype engine_end = Info_none | Info_prepared string | Engine_raises py_exn

record 's engine_run =
  steps :: "'s engine_step list"
  ending :: engine_end

type_synonym 's engine = "string \<Rightarrow> string \<Rightarrow> 's engine_run"

fun call_hooks ::
  "(hook_dict \<Rightarrow> 's \<Rightarrow> unit outcome \<times> 's) list \<Rightarrow> hook_dict \<Rightarrow> 's \<Rightarrow> unit outcome \<times> 's" where
  "call_hooks [] d s = (Returns (), s)"
| "call_hooks (h # hs) d s =
     (case h d s of
        (Returns _, s') \<Rightarrow> call_hooks hs d s'
      | (Raises e, s') \<Rightarrow> (Raises e, s'))"

text \<open>An exception raised by a hook leaves the library's call.\<close>

fun extract_info ::
  "(hook_dict \<Rightarrow> 's \<Rightarrow> unit outcome \<times> 's) list \<Rightarrow> 's engine_step list \<Rightarrow> 's
   \<Rightarrow> unit outcome \<times> 's" where
  "extract_info hooks [] s = (Returns (), s)"
| "extract_info hooks (Fires d # rest) s =
     (case call_hooks hooks d s of
        (Returns _, s') \<Rightarrow> extract_info hooks rest s'
      | (Raises e, s') \<Rightarrow> (Raises e, s'))"
| "extract_info hooks (Changes f # rest) s = extract_info hooks rest (f s)"

text \<open>\<^verbatim>\<open>str.startswith\<close>, \<^verbatim>\<open>str.replace\<close> and \<^verbatim>\<open>os.path.basename\<close>.\<close>

definition startswith :: "string \<Rightarrow> string \<Rightarrow> bool" where
  "startswith s p = (take (length p) s = p)"

function py_replace :: "string \<Rightarrow> string \<Rightarrow> string \<Rightarrow> string" where
  "py_replace old new s =
     (if old = [] then new @ concat (map (\<lambda>c. c # new) s)
      else if s = [] then []
      else if take (length old) s = old then new @ py_replace old new (drop (length old) s)
      else hd s # py_replace old new (tl s))"
  by pat_completeness auto
termination
  by (relation "measure (\<lambda>(old, new, s). length s)") auto

declare py_replace.simps [simp del]

definition py_basename :: "string \<Rightarrow> string" where
  "py_basename p = rev (takeWhile (\<lambda>c. c \<noteq> CHR ''/'') (rev p))"

text \<open>The result dictionary of \<^verbatim>\<open>download_media\<close>, with the keys its caller reads.\<close>

record dl_result =
  r_success :: bool
  r_filename :: "string option"
  r_error :: "string option"

definition dl_failure :: "string \<Rightarrow> dl_result" where
  "dl_failure m = \<lparr> r_success = False, r_filename = None, r_error = Some m \<rparr>"

definition actual_filename :: "string \<Rightarrow> string \<Rightarrow> string" where
  "actual_filename format_choice prepared =
     (if startswith format_choice ''audio_''
      then py_replace ''.m4a'' ''.mp3'' (py_replace ''.webm'' ''.mp3'' prepared)
      else prepared)"

text \<open>
  \<^verbatim>\<open>download_media\<close>: the two \<^verbatim>\<open>except\<close> clauses turn every exception of the \<^verbatim>\<open>try\<close> block
  into a failure result. The options handed to the library (output template, format
  string) act only through what the library then does, which is the \<open>engine\<close>.
\<close>

definition download_media ::
  "float_ops \<Rightarrow> 's engine \<Rightarrow> string \<Rightarrow> string \<Rightarrow> 's callback option \<Rightarrow> 's
   \<Rightarrow> dl_result outcome \<times> 's" where
  "download_media ops engine url format_choice progress_cb s =
     (let progress_hooks = (case progress_cb of
                               Some cb \<Rightarrow> [hook ops (Some cb)] | None \<Rightarrow> []);
          run = engine url format_choice;
          (tried, s') =
            (case extract_info progress_hooks (steps run) s of
               (Raises e, s') \<Rightarrow> (Raises e, s')
             | (Returns _, s') \<Rightarrow>
                 (case ending run of
                    Engine_raises e \<Rightarrow> (Raises e, s')
                  | Info_none \<Rightarrow>
                      (Returns (dl_failure ''No se pudo descargar el archivo''), s')
                  | Info_prepared prepared \<Rightarrow>
                      (Returns \<lparr> r_success = True,
                                 r_filename = Some (py_basename
                                   (actual_filename format_choice prepared)),
                                 r_error = None \<rparr>, s')))
      in case tried of
           Returns result \<Rightarrow> (Returns result, s')
         | Raises (DownloadError m) \<Rightarrow>
             (Returns (dl_failure (''Error de descarga: '' @ m)), s')
         | Raises e \<Rightarrow> (Returns (dl_failure (''Error inesperado: '' @ exn_str e)), s'))"

section \<open>The background worker (\<^verbatim>\<open>download_worker\<close> in \<^verbatim>\<open>app.py\<close>)\<close>

definition connecting_record :: progress where
  "connecting_record =
     \<lparr> status = ''downloading'', percentage = 0, message = ''Conectando...'',
       filename = None, download_url = None \<rparr>"

definition completed_record :: "string \<Rightarrow> progress" where
  "completed_record fn =
     \<lparr> status = ''completed'', percentage = 100, message = ''Descarga completada'',
       filename = Some fn, download_url = Some (''/downloads/'' @ fn) \<rparr>"

definition error_record :: "string \<Rightarrow> progress" where
  "error_record m =
     \<lparr> status = ''error'', percentage = 0, message = m,
       filename = None, download_url = None \<rparr>"

text \<open>The first statement of the \<^verbatim>\<open>try\<close> block.\<close>

definition worker_launch :: "task_id \<Rightarrow> progress_table \<Rightarrow> progress_table" where
  "worker_launch task_id tbl = tbl(task_id \<mapsto> connecting_record)"

text \<open>
  The rest of the \<^verbatim>\<open>try\<close> block, once the adapter has returned \<open>result\<close>;
  \<^verbatim>\<open>result['filename']\<close> raises \<^verbatim>\<open>KeyError\<close> when the key is missing.
\<close>

definition worker_result ::
  "task_id \<Rightarrow> dl_result \<Rightarrow> progress_table \<Rightarrow> unit outcome \<times> progress_table" where
  "worker_result task_id result tbl =
     (if r_success result then
        (case r_filename result of
           None \<Rightarrow> (Raises (KeyError ''filename''), tbl)
         | Some fn \<Rightarrow> (Returns (), tbl(task_id \<mapsto> completed_record fn)))
      else
        (Returns (),
         tbl(task_id \<mapsto> error_record
           (case r_error result of Some m \<Rightarrow> m | None \<Rightarrow> ''Error desconocido''))))"

text \<open>The \<^verbatim>\<open>except Exception as e\<close> clause.\<close>

definition worker_except :: "task_id \<Rightarrow> py_exn \<Rightarrow> progress_table \<Rightarrow> progress_table" where
  "worker_except task_id e tbl = tbl(task_id \<mapsto> error_record (''Error: '' @ exn_str e))"

type_synonym adapter =
  "string \<Rightarrow> string \<Rightarrow> progress_table callback option \<Rightarrow> progress_table
   \<Rightarrow> dl_result outcome \<times> progress_table"

text \<open>
  \<^verbatim>\<open>download_worker(task_id, url, format_choice)\<close>. The adapter is
  \<^verbatim>\<open>media_engine.download_media\<close>; it is an argument here, so that the worker is also defined
  for an adapter that raises. \<open>worker_after\<close> is the \<^verbatim>\<open>try\<close> block from the point where the
  adapter's call ends, with the \<^verbatim>\<open>except\<close> clause around it.
\<close>

definition worker_after ::
  "task_id \<Rightarrow> dl_result outcome \<times> progress_table \<Rightarrow> unit outcome \<times> progress_table" where
  "worker_after task_id returned =
     (let tried =
            (case returned of
               (Raises e, tbl') \<Rightarrow> (Raises e, tbl')
             | (Returns result, tbl') \<Rightarrow> worker_result task_id result tbl')
      in case tried of
           (Returns u, tbl') \<Rightarrow> (Returns u, tbl')
         | (Raises e, tbl') \<Rightarrow> (Returns (), worker_except task_id e tbl'))"

definition download_worker ::
  "adapter \<Rightarrow> (rat \<Rightarrow> string) \<Rightarrow> task_id \<Rightarrow> string \<Rightarrow> string \<Rightarrow> progress_table
   \<Rightarrow> unit outcome \<times> progress_table" where
  "download_worker adapter fmt task_id url format_choice tbl =
     worker_after task_id
       (adapter url format_choice (Some (progress_callback fmt task_id))
          (worker_launch task_id tbl))"

text \<open>Whether what the adapter handed back is a success: a result with \<^verbatim>\<open>success\<close> true.\<close>

definition adapter_succeeded :: "dl_result outcome \<Rightarrow> bool" where
  "adapter_succeeded returned =
     (case returned of Returns result \<Rightarrow> r_success result | Raises _ \<Rightarrow> False)"

section \<open>Reading, the event stream and cleanup (\<^verbatim>\<open>get_progress\<close>, \<^verbatim>\<open>cleanup_task\<close>)\<close>

definition not_found_record :: progress where
  "not_found_record =
     \<lparr> status = ''not_found'', percentage = 0, message = ''Tarea no encontrada'',
       filename = None, download_url = None \<rparr>"

text \<open>The read under the lock at the head of the loop: a copy of the record, or the sentinel.\<close>

definition current_progress :: "progress_table \<Rightarrow> task_id \<Rightarrow> progress" where
  "current_progress tbl task_id =
     (case tbl task_id of Some r \<Rightarrow> r | None \<Rightarrow> not_found_record)"

definition terminal_statuses :: "string list" where
  "terminal_statuses = [''completed'', ''error'', ''not_found'']"

text \<open>
  The generator \<^verbatim>\<open>generate()\<close> of \<^verbatim>\<open>get_progress\<close>. The loop has no bound of its own: it
  reads the table once per round, every half second. The argument is the table as it is at
  each successive round; the result is the events sent during these rounds and whether the
  loop has ended within them (\<^verbatim>\<open>break\<close>). \<open>last_status\<close> is \<^verbatim>\<open>None\<close> before the first event.
\<close>

fun generate ::
  "task_id \<Rightarrow> progress option \<Rightarrow> progress_table list \<Rightarrow> progress list \<times> bool" where
  "generate task_id last_status [] = ([], False)"
| "generate task_id last_status (tbl # later) =
     (let current = current_progress tbl task_id;
          sent = (if Some current \<noteq> last_status then [current] else []);
          last_status' = (if Some current \<noteq> last_status then Some current else last_status)
      in if status current \<in> set terminal_statuses then (sent, True)
         else (case generate task_id last_status' later of
                 (rest, ended) \<Rightarrow> (sent @ rest, ended)))"

definition get_progress :: "task_id \<Rightarrow> progress_table list \<Rightarrow> progress list \<times> bool" where
  "get_progress task_id rounds = generate task_id None rounds"

definition cleanup_task :: "task_id \<Rightarrow> progress_table \<Rightarrow> progress_table" where
  "cleanup_task task_id tbl = (if task_id \<in> dom tbl then tbl(task_id := None) else tbl)"

section \<open>The operations on the table, interleaved\<close>

text \<open>
  Every access to the table is made with \<^verbatim>\<open>download_lock\<close> held, so the accesses of the
  threads happen one after the other. In this first model every task id is a fresh token,
  given to one run of \<^verbatim>\<open>download_worker\<close> at most. That run writes the first record
  (\<open>Launch\<close>), then the
  library calls the callback any number of times (\<open>Progress\<close>), then the adapter's call
  ends and the run writes its last record (\<open>Conclude\<close>). Readers (\<open>Read\<close>) and
  \<^verbatim>\<open>cleanup_task\<close> (\<open>Cleanup\<close>) may come at any time, for any task id.
\<close>

datatype phase = Not_started | Running | Done

record system =
  table :: progress_table
  phase_of :: "task_id \<Rightarrow> phase"

definition initial :: system where
  "initial = \<lparr> table = Map.empty, phase_of = (\<lambda>_. Not_started) \<rparr>"

datatype action =
    Launch task_id
  | Progress task_id progress_info
  | Conclude task_id "dl_result outcome"
  | Read task_id
  | Cleanup task_id

fun sys_step :: "(rat \<Rightarrow> string) \<Rightarrow> action \<Rightarrow> system \<Rightarrow> system option" where
  "sys_step fmt (Launch t) s =
     (if phase_of s t = Not_started
      then Some \<lparr> table = worker_launch t (table s), phase_of = (phase_of s)(t := Running) \<rparr>
      else None)"
| "sys_step fmt (Progress t ev) s =
     (if phase_of s t = Running
      then Some (s\<lparr> table := snd (progress_callback fmt t ev (table s)) \<rparr>)
      else None)"
| "sys_step fmt (Conclude t returned) s =
     (if phase_of s t = Running
      then Some \<lparr> table = snd (worker_after t (returned, table s)),
                  phase_of = (phase_of s)(t := Done) \<rparr>
      else None)"
| "sys_step fmt (Read t) s = Some s"
| "sys_step fmt (Cleanup t) s = Some (s\<lparr> table := cleanup_task t (table s) \<rparr>)"

fun run :: "(rat \<Rightarrow> string) \<Rightarrow> action list \<Rightarrow> system \<Rightarrow> system option" where
  "run fmt [] s = Some s"
| "run fmt (a # as) s = (case sys_step fmt a s of None \<Rightarrow> None | Some s' \<Rightarrow> run fmt as s')"

text \<open>The records a subscriber meets, round by round, up to the first terminal one.\<close>

definition is_terminal :: "progress \<Rightarrow> bool" where
  "is_terminal r = (status r \<in> set terminal_statuses)"

definition observed :: "task_id \<Rightarrow> progress_table list \<Rightarrow> progress list" where
  "observed task_id rounds = map (\<lambda>tbl. current_progress tbl task_id) rounds"

definition upto_terminal :: "progress list \<Rightarrow> progress list" where
  "upto_terminal rs =
     takeWhile (\<lambda>r. \<not> is_terminal r) rs @ take 1 (dropWhile (\<lambda>r. \<not> is_terminal r) rs)"

text \<open>
  The statuses that the worker writes, the two of them with which a task has ended, and
  what holds of every state that the operations reach: a stored record has one of the four
  statuses, and a task whose record has ended is a task whose run is over.
\<close>

definition stored_statuses :: "string set" where
  "stored_statuses = {''downloading'', ''processing'', ''completed'', ''error''}"

definition reached_terminal :: "progress \<Rightarrow> bool" where
  "reached_terminal r \<longleftrightarrow> status r = ''completed'' \<or> status r = ''error''"

definition sys_inv :: "system \<Rightarrow> bool" where
  "sys_inv s \<longleftrightarrow>
     (\<forall>t r. table s t = Some r \<longrightarrow>
        status r \<in> stored_statuses \<and> (reached_terminal r \<longrightarrow> phase_of s t = Done))"




section \<open>The file name of the streamed response (\<^verbatim>\<open>download\<close> in \<^verbatim>\<open>app.py\<close>)\<close>










section \<open>The streaming delivery (\<^verbatim>\<open>MediaEngine.stream_download\<close>)\<close>

text \<open>
  The part of the file system that matters: the directories, each with its entries (name
  and content) in the order in which a listing gives them. A content is a list of bytes.
\<close>

type_synonym path = string

type_synonym filesystem = "path \<rightharpoonup> (string \<times> string) list"

definition py_dirname :: "path \<Rightarrow> path" where
  "py_dirname p = rev (tl (dropWhile (\<lambda>c. c \<noteq> CHR ''/'') (rev p)))"

definition lookup_file :: "filesystem \<Rightarrow> path \<Rightarrow> string option" where
  "lookup_file fs p =
     (case fs (py_dirname p) of None \<Rightarrow> None | Some entries \<Rightarrow> map_of entries (py_basename p))"

text \<open>\<^verbatim>\<open>os.path.exists\<close>: a directory or a file.\<close>

definition path_exists :: "filesystem \<Rightarrow> path \<Rightarrow> bool" where
  "path_exists fs p = (fs p \<noteq> None \<or> lookup_file fs p \<noteq> None)"

text \<open>\<^verbatim>\<open>list(temp_path.glob('*'))\<close>\<close>

definition glob_all :: "filesystem \<Rightarrow> path \<Rightarrow> path list" where
  "glob_all fs d =
     (case fs d of None \<Rightarrow> [] | Some entries \<Rightarrow> map (\<lambda>(n, _). d @ ''/'' @ n) entries)"

text \<open>The successive results of \<^verbatim>\<open>f.read(n)\<close> up to the empty one.\<close>

function chunks_of :: "nat \<Rightarrow> string \<Rightarrow> string list" where
  "chunks_of n bs = (if n = 0 \<or> bs = [] then [] else take n bs # chunks_of n (drop n bs))"
  by pat_completeness auto
termination
  by (relation "measure (\<lambda>(n, bs). length bs)") auto

declare chunks_of.simps [simp del]

text \<open>
  The consumer of the generator either takes chunks until there are no more, or closes the
  generator after it has taken so many chunks; closing it before the first chunk is asked
  for means that the body never starts. What can go wrong around the body: \<^verbatim>\<open>open\<close> raises,
  the read with a given number raises, \<^verbatim>\<open>shutil.rmtree\<close> raises.
\<close>

datatype consumer = Exhausts | Closes_after nat

datatype ending = Exhausted | Closed | Faulted py_exn

record stream_env =
  tmp_dir :: path
  open_fault :: "py_exn option"
  read_fault :: "nat option"
  rmtree_fault :: "py_exn option"

record stream_outcome =
  delivered :: "string list"
  ended :: ending
  fs_after :: filesystem

text \<open>
  The loop \<^verbatim>\<open>while True: chunk = f.read(8192) ...\<close> with the consumer at each \<^verbatim>\<open>yield\<close>.
  \<open>k\<close> numbers the reads; the budget is the number of chunks the consumer still takes
  before it closes, if it closes at all.
\<close>

fun deliver :: "string list \<Rightarrow> nat \<Rightarrow> nat option \<Rightarrow> nat option \<Rightarrow> string list \<times> ending" where
  "deliver [] k fault budget =
     (if fault = Some k then ([], Faulted (OSError ''read failed'')) else ([], Exhausted))"
| "deliver (c # cs) k fault budget =
     (if fault = Some k then ([], Faulted (OSError ''read failed''))
      else if budget = Some 0 then ([], Closed)
      else if budget = Some 1 then ([c], Closed)
      else (case deliver cs (Suc k) fault (map_option (\<lambda>n. n - 1) budget) of
              (out, e) \<Rightarrow> (c # out, e)))"

definition budget_of :: "consumer \<Rightarrow> nat option" where
  "budget_of c = (case c of Exhausts \<Rightarrow> None | Closes_after n \<Rightarrow> Some n)"

text \<open>
  The state of the file system when the library's calls inside the \<^verbatim>\<open>try\<close> block are over:
  \<^verbatim>\<open>mkdtemp\<close> has made the directory, the library has run with the output template in it.
  No progress hook is registered on this path.
\<close>

definition fetched ::
  "(path \<Rightarrow> filesystem engine) \<Rightarrow> stream_env \<Rightarrow> string \<Rightarrow> string \<Rightarrow> filesystem
   \<Rightarrow> unit outcome \<times> filesystem" where
  "fetched engine env url format_choice fs =
     extract_info [] (steps (engine (tmp_dir env) url format_choice)) (fs(tmp_dir env \<mapsto> []))"

text \<open>The file that is streamed: the predicted one, or else the first of the directory.\<close>

definition chosen_file :: "filesystem \<Rightarrow> path \<Rightarrow> path \<Rightarrow> path" where
  "chosen_file fs tmp predicted =
     (if \<not> path_exists fs predicted
      then (case glob_all fs tmp of [] \<Rightarrow> predicted | f # _ \<Rightarrow> f)
      else predicted)"

text \<open>
  The \<^verbatim>\<open>try\<close> block after the library's calls: how the sequence of chunks goes. An
  exception here is printed and raised again by the \<^verbatim>\<open>except\<close> clause.
\<close>

definition stream_body ::
  "(path \<Rightarrow> filesystem engine) \<Rightarrow> stream_env \<Rightarrow> string \<Rightarrow> string \<Rightarrow> consumer
   \<Rightarrow> unit outcome \<times> filesystem \<Rightarrow> string list \<times> ending" where
  "stream_body engine env url format_choice cons tried =
     (case tried of
        (Raises e, fs') \<Rightarrow> ([], Faulted e)
      | (Returns _, fs') \<Rightarrow>
          (case ending (engine (tmp_dir env) url format_choice) of
             Engine_raises e \<Rightarrow> ([], Faulted e)
           | Info_none \<Rightarrow> ([], Faulted (TypeError ''prepare_filename(None)''))
           | Info_prepared prepared \<Rightarrow>
               (let filename = chosen_file fs' (tmp_dir env)
                                 (actual_filename format_choice prepared)
                in if path_exists fs' filename then
                     (case open_fault env of
                        Some e \<Rightarrow> ([], Faulted e)
                      | None \<Rightarrow>
                          (case lookup_file fs' filename of
                             None \<Rightarrow> ([], Faulted (OSError ''Is a directory''))
                           | Some content \<Rightarrow>
                               deliver (chunks_of 8192 content) 0 (read_fault env)
                                 (budget_of cons)))
                   else ([], Exhausted))))"

text \<open>
  The \<^verbatim>\<open>finally\<close> clause: \<^verbatim>\<open>shutil.rmtree(temp_dir)\<close> inside its own \<^verbatim>\<open>try\<close>, whose
  \<^verbatim>\<open>except\<close> prints the exception and goes on.
\<close>

definition cleanup_temp :: "stream_env \<Rightarrow> filesystem \<Rightarrow> filesystem" where
  "cleanup_temp env fs =
     (case rmtree_fault env of
        Some e \<Rightarrow> fs
      | None \<Rightarrow> (if tmp_dir env \<in> dom fs then fs(tmp_dir env := None) else fs))"

definition stream_download ::
  "(path \<Rightarrow> filesystem engine) \<Rightarrow> stream_env \<Rightarrow> string \<Rightarrow> string \<Rightarrow> consumer \<Rightarrow> filesystem
   \<Rightarrow> stream_outcome" where
  "stream_download engine env url format_choice cons fs =
     (if cons = Closes_after 0 then \<lparr> delivered = [], ended = Closed, fs_after = fs \<rparr>
      else
        (let tried = fetched engine env url format_choice fs;
             (out, e) = stream_body engine env url format_choice cons tried
         in \<lparr> delivered = out, ended = e, fs_after = cleanup_temp env (snd tried) \<rparr>))"

section \<open>Examples\<close>

text \<open>
  Float operations that are exact: they are the doubles' operations wherever the exact
  result is itself a double, as it is for the byte counts of the examples below
  (\<^verbatim>\<open>1024 / 4096\<close> is \<^verbatim>\<open>0.25\<close> and \<^verbatim>\<open>0.25 * 100\<close> is \<^verbatim>\<open>25.0\<close>).
\<close>

definition exact_ops :: float_ops where
  "exact_ops = \<lparr> fl_div = (\<lambda>a b. Some (a / b)), fl_mul = (\<lambda>a b. a * b) \<rparr>"



definition raising_adapter :: adapter where
  "raising_adapter url format_choice cb tbl = (Raises (OtherException ''boom''), tbl)"

definition example_fmt :: "rat \<Rightarrow> string" where
  "example_fmt x = ''42.4''"

text \<open>
  Four rounds of a subscriber of task \<^verbatim>\<open>t1\<close>, and a sequence of operations in which task
  \<^verbatim>\<open>t1\<close> runs to completion and task \<^verbatim>\<open>t2\<close> is cleaned up while it runs.
\<close>

definition example_rounds :: "progress_table list" where
  "example_rounds =
     [[''t1'' \<mapsto> connecting_record],
      [''t1'' \<mapsto> connecting_record, ''t2'' \<mapsto> connecting_record],
      [''t1'' \<mapsto> completed_record ''a.mp4''],
      Map.empty]"

definition example_actions :: "action list" where
  "example_actions =
     [Launch ''t1'', Progress ''t1'' finished_info,
      Conclude ''t1'' (Returns \<lparr> r_success = True, r_filename = Some ''a.mp4'',
                                 r_error = None \<rparr>),
      Launch ''t2'', Cleanup ''t2'']"


definition remuxing_engine :: "path \<Rightarrow> filesystem engine" where
  "remuxing_engine tmp url format_choice =
     \<lparr> steps = [Changes (\<lambda>fs. fs(tmp \<mapsto> [(''clip.mkv'', ''0123456789'')]))],
       ending = Info_prepared (tmp @ ''/clip.mp4'') \<rparr>"

definition calm_env :: stream_env where
  "calm_env = \<lparr> tmp_dir = ''/tmp/tmpab12'', open_fault = None, read_fault = None,
                rmtree_fault = None \<rparr>"


text \<open>
  A dictionary with 1024 of an estimated 4096 bytes downloaded (25 percent).
\<close>

definition example_dict :: hook_dict where
  "example_dict =
     \<lparr> d_status = ''downloading'', d_total_bytes = PyNone,
       d_total_bytes_estimate = Num 4096, d_downloaded_bytes = Num 1024,
       d_speed = Absent, d_eta = PyNone \<rparr>"

section \<open>Properties of the progress hook\<close>

lemma forwarded_positive:
  "d_status d = ''downloading'' \<Longrightarrow> reported_total d = Num t \<Longrightarrow> 0 < t \<Longrightarrow>
   reported_downloaded d = Num n \<Longrightarrow> py_truediv ops n t = Returns q \<Longrightarrow>
   forwarded ops d = [downloading_info d n t (fl_mul ops q 100)]"
  by (simp add: forwarded_def hook_def record_call_def)

lemma forwarded_nothing:
  "d_status d = ''downloading'' \<Longrightarrow>
   \<not> (\<exists>t n q. reported_total d = Num t \<and> 0 < t \<and> reported_downloaded d = Num n \<and>
              py_truediv ops n t = Returns q) \<Longrightarrow>
   forwarded ops d = []"
  by (simp add: forwarded_def hook_def record_call_def split: pyval.splits outcome.splits)

lemma forwarded_other:
  "d_status d \<noteq> ''downloading'' \<Longrightarrow>
   \<forall>e \<in> set (forwarded ops d). pi_status e \<noteq> ''downloading''"
  by (simp add: forwarded_def hook_def record_call_def finished_info_def error_info_def)

lemma py_truediv_positive:
  "0 < t \<Longrightarrow> py_truediv ops n t \<noteq> Raises (ZeroDivisionError m)"
  by (simp add: py_truediv_def split: option.splits)

lemma hook_no_zero_division: "hook_outcome ops d \<noteq> Raises (ZeroDivisionError m)"
  by (simp add: hook_outcome_def hook_def record_call_def py_truediv_def
      split: pyval.splits outcome.splits option.splits)

text \<open>
  Claim C10. The hook calls the callback with a \<^verbatim>\<open>downloading\<close> event only when the
  reported total (exact, or else estimated) is a number strictly above zero, and the
  percentage of that event is \<^verbatim>\<open>(downloaded / total) * 100\<close> as the doubles compute it; when
  the total is zero or unknown the callback is not called at all for a \<^verbatim>\<open>downloading\<close>
  dictionary. The hook never raises \<^verbatim>\<open>ZeroDivisionError\<close>, and every forwarded
  \<^verbatim>\<open>downloading\<close> event has a percentage.
\<close>

theorem hook_downloading_only_with_positive_total:
  "(\<forall>e \<in> set (forwarded ops d). pi_status e = ''downloading'' \<longrightarrow>
      d_status d = ''downloading'' \<and>
      (\<exists>t n q. reported_total d = Num t \<and> 0 < t \<and> reported_downloaded d = Num n \<and>
             py_truediv ops n t = Returns q \<and> fl_div ops n t = Some q \<and>
             pi_percentage e = fl_mul ops q 100))
   \<and> (d_status d = ''downloading'' \<and> \<not> (\<exists>t. reported_total d = Num t \<and> 0 < t)
        \<longrightarrow> forwarded ops d = [])
   \<and> (\<forall>t n q. d_status d = ''downloading'' \<and> reported_total d = Num t \<and> 0 < t \<and>
            reported_downloaded d = Num n \<and> fl_div ops n t = Some q
        \<longrightarrow> forwarded ops d = [downloading_info d n t (fl_mul ops q 100)] \<and>
            pi_percentage (downloading_info d n t (fl_mul ops q 100)) = fl_mul ops q 100)
   \<and> (\<forall>m. hook_outcome ops d \<noteq> Raises (ZeroDivisionError m))"
proof (intro conjI)
  show "\<forall>e \<in> set (forwarded ops d). pi_status e = ''downloading'' \<longrightarrow>
      d_status d = ''downloading'' \<and>
      (\<exists>t n q. reported_total d = Num t \<and> 0 < t \<and> reported_downloaded d = Num n \<and>
             py_truediv ops n t = Returns q \<and> fl_div ops n t = Some q \<and>
             pi_percentage e = fl_mul ops q 100)"
  proof (cases "d_status d = ''downloading''")
    case True
    show ?thesis
    proof (cases "\<exists>t n q. reported_total d = Num t \<and> 0 < t \<and> reported_downloaded d = Num n \<and>
              py_truediv ops n t = Returns q")
      case ex: True
      then obtain t n q where tn: "reported_total d = Num t" "0 < t"
        "reported_downloaded d = Num n" "py_truediv ops n t = Returns q"
        by blast
      from tn(2,4) have q: "fl_div ops n t = Some q"
        by (simp add: py_truediv_def split: option.splits)
      have "forwarded ops d = [downloading_info d n t (fl_mul ops q 100)]"
        using True tn by (rule forwarded_positive)
      moreover have "pi_percentage (downloading_info d n t (fl_mul ops q 100)) = fl_mul ops q 100"
        by (simp add: downloading_info_def)
      ultimately show ?thesis using True tn q by auto
    next
      case False
      with True have "forwarded ops d = []" by (rule forwarded_nothing)
      then show ?thesis by simp
    qed
  next
    case False
    with forwarded_other [of d ops] show ?thesis by simp
  qed
next
  show "d_status d = ''downloading'' \<and> \<not> (\<exists>t. reported_total d = Num t \<and> 0 < t)
        \<longrightarrow> forwarded ops d = []"
    using forwarded_nothing [of d ops] by blast
next
  show "\<forall>t n q. d_status d = ''downloading'' \<and> reported_total d = Num t \<and> 0 < t \<and>
            reported_downloaded d = Num n \<and> fl_div ops n t = Some q
        \<longrightarrow> forwarded ops d = [downloading_info d n t (fl_mul ops q 100)] \<and>
            pi_percentage (downloading_info d n t (fl_mul ops q 100)) = fl_mul ops q 100"
    by (simp add: forwarded_positive downloading_info_def py_truediv_def)
next
  show "\<forall>m. hook_outcome ops d \<noteq> Raises (ZeroDivisionError m)"
    by (simp add: hook_no_zero_division)
qed

theorem hook_downloading_only_with_positive_total_witness:
  "map pi_status (forwarded exact_ops example_dict) = [''downloading'']
   \<and> map pi_percentage (forwarded exact_ops example_dict) = [25]
   \<and> forwarded exact_ops (example_dict \<lparr> d_total_bytes_estimate := Absent \<rparr>) = []"
proof -
  have s: "d_status example_dict = ''downloading''"
    and t: "reported_total example_dict = Num 4096"
    and n: "reported_downloaded example_dict = Num 1024"
    and q: "fl_div exact_ops 1024 4096 = Some (1 / 4)"
    by (simp_all add: example_dict_def reported_total_def reported_downloaded_def
        py_get_def py_or_def truthy_def exact_ops_def)
  have u: "d_status (example_dict \<lparr> d_total_bytes_estimate := Absent \<rparr>) = ''downloading''"
    and z: "\<not> (\<exists>t. reported_total (example_dict \<lparr> d_total_bytes_estimate := Absent \<rparr>) = Num t
              \<and> 0 < t)"
    by (simp_all add: example_dict_def reported_total_def py_get_def py_or_def truthy_def)
  from hook_downloading_only_with_positive_total [of exact_ops example_dict] s t n q
  have "forwarded exact_ops example_dict =
          [downloading_info example_dict 1024 4096 (fl_mul exact_ops (1 / 4) 100)]"
    by simp
  moreover from hook_downloading_only_with_positive_total
      [of exact_ops "example_dict \<lparr> d_total_bytes_estimate := Absent \<rparr>"] u z
  have "forwarded exact_ops (example_dict \<lparr> d_total_bytes_estimate := Absent \<rparr>) = []"
    by blast
  ultimately show ?thesis
    by (simp add: downloading_info_def exact_ops_def)
qed


section \<open>Properties of the worker\<close>





lemma download_media_returns:
  "\<exists>result. fst (download_media ops engine url format_choice cb s) = Returns result"
  by (auto simp: download_media_def Let_def case_prod_unfold
      split: outcome.splits engine_end.splits py_exn.splits prod.splits)




text \<open>
  Claim C2. Whatever the task id, the URL, the format selector and the adapter do, the
  worker returns normally. It leaves a record with status \<^verbatim>\<open>completed\<close> or \<^verbatim>\<open>error\<close> for its
  task id, and when the adapter has failed (a result without success, or an exception) that
  record has status \<^verbatim>\<open>error\<close> and carries the message: the adapter's error text, or
  \<^verbatim>\<open>Error desconocido\<close>, or \<^verbatim>\<open>Error: \<close> followed by the exception's text.
\<close>

theorem download_worker_never_raises:
  "fst (download_worker adapter fmt task_id url format_choice tbl) = Returns ()
   \<and> (\<exists>r. snd (download_worker adapter fmt task_id url format_choice tbl) task_id = Some r
          \<and> reached_terminal r)
   \<and> (\<not> adapter_succeeded (fst (adapter url format_choice
           (Some (progress_callback fmt task_id)) (worker_launch task_id tbl)))
        \<longrightarrow> snd (download_worker adapter fmt task_id url format_choice tbl) task_id =
              Some \<lparr> status = ''error'', percentage = 0,
                     message =
                       (case fst (adapter url format_choice
                          (Some (progress_callback fmt task_id)) (worker_launch task_id tbl)) of
                          Raises e \<Rightarrow> ''Error: '' @ exn_str e
                        | Returns result \<Rightarrow>
                            (case r_error result of
                               Some m \<Rightarrow> m | None \<Rightarrow> ''Error desconocido'')),
                     filename = None, download_url = None \<rparr>)"
proof -
  obtain returned tbl' where a: "adapter url format_choice
           (Some (progress_callback fmt task_id)) (worker_launch task_id tbl) = (returned, tbl')"
    by (cases "adapter url format_choice
           (Some (progress_callback fmt task_id)) (worker_launch task_id tbl)")
  show ?thesis
  proof (cases returned)
    case (Returns result)
    then show ?thesis
      by (cases "r_filename result")
         (simp_all add: download_worker_def a worker_after_def worker_result_def
           worker_except_def adapter_succeeded_def error_record_def completed_record_def
           reached_terminal_def)
  next
    case (Raises e)
    then show ?thesis
      by (simp add: download_worker_def a worker_after_def worker_except_def
          adapter_succeeded_def error_record_def reached_terminal_def)
  qed
qed


theorem download_worker_never_raises_witness:
  "fst (download_worker raising_adapter example_fmt ''t1'' ''https://example.com/v1''
          ''video_best'' Map.empty) = Returns ()
   \<and> snd (download_worker raising_adapter example_fmt ''t1'' ''https://example.com/v1''
          ''video_best'' Map.empty) ''t1'' =
       Some \<lparr> status = ''error'', percentage = 0, message = ''Error: boom'',
              filename = None, download_url = None \<rparr>"
  using download_worker_never_raises
    [of raising_adapter example_fmt "''t1''" "''https://example.com/v1''" "''video_best''"
        Map.empty]
  by (simp add: raising_adapter_def adapter_succeeded_def)




section \<open>Properties of the event stream\<close>

lemma upto_terminal_Nil: "upto_terminal [] = []"
  by (simp add: upto_terminal_def)

lemma upto_terminal_Cons:
  "upto_terminal (r # rs) = (if is_terminal r then [r] else r # upto_terminal rs)"
  by (simp add: upto_terminal_def)

lemma generate_sent:
  "fst (generate task_id last_status rounds) =
     (case last_status of
        None \<Rightarrow> remdups_adj (upto_terminal (observed task_id rounds))
      | Some l \<Rightarrow> tl (remdups_adj (l # upto_terminal (observed task_id rounds))))"
proof (induction rounds arbitrary: last_status)
  case Nil
  then show ?case by (simp add: observed_def upto_terminal_Nil split: option.splits)
next
  case (Cons tbl later)
  let ?cur = "current_progress tbl task_id"
  have obs: "observed task_id (tbl # later) = ?cur # observed task_id later"
    by (simp add: observed_def)
  show ?case
  proof (cases "is_terminal ?cur")
    case True
    then show ?thesis
      by (simp add: obs upto_terminal_Cons is_terminal_def Let_def split: option.splits)
  next
    case False
    then show ?thesis
      using Cons.IH [of "Some ?cur"] Cons.IH [of last_status]
      by (auto simp: obs upto_terminal_Cons is_terminal_def Let_def split: option.splits prod.splits)
  qed
qed









lemma remdups_adj_Cons_cong:
  "remdups_adj xs = remdups_adj ys \<Longrightarrow> remdups_adj (x # xs) = remdups_adj (x # ys)"
  by (simp add: remdups_adj_Cons)

lemma upto_terminal_twice:
  "remdups_adj (upto_terminal (xs @ c # c # ys)) = remdups_adj (upto_terminal (xs @ c # ys))"
proof (induction xs)
  case Nil
  then show ?case by (simp add: upto_terminal_Cons)
next
  case (Cons x xs)
  show ?case
  proof (cases "is_terminal x")
    case True
    then show ?thesis by (simp add: upto_terminal_Cons)
  next
    case False
    with remdups_adj_Cons_cong [OF Cons.IH, of x] show ?thesis
      by (simp add: upto_terminal_Cons)
  qed
qed

lemma get_progress_sent:
  "fst (get_progress task_id rounds) = remdups_adj (upto_terminal (observed task_id rounds))"
  by (simp add: get_progress_def generate_sent)





text \<open>
  Claim C7. An event is sent in a round only when the record read differs from the one
  sent last, compared as dictionaries, field by field. No two events in a row are equal,
  and a round that reads the same record as the round before it adds no event.
\<close>

theorem event_stream_suppresses_repeats:
  "distinct_adj (fst (get_progress task_id rounds))
   \<and> fst (generate task_id last_status [tbl]) =
       (if Some (current_progress tbl task_id) \<noteq> last_status
        then [current_progress tbl task_id] else [])
   \<and> (current_progress tbl1 task_id = current_progress tbl2 task_id \<longrightarrow>
        fst (get_progress task_id (before @ [tbl1, tbl2] @ later)) =
        fst (get_progress task_id (before @ [tbl1] @ later)))"
proof (intro conjI)
  show "distinct_adj (fst (get_progress task_id rounds))"
    by (simp add: get_progress_sent)
  show "fst (generate task_id last_status [tbl]) =
       (if Some (current_progress tbl task_id) \<noteq> last_status
        then [current_progress tbl task_id] else [])"
    by (simp add: Let_def)
  show "current_progress tbl1 task_id = current_progress tbl2 task_id \<longrightarrow>
        fst (get_progress task_id (before @ [tbl1, tbl2] @ later)) =
        fst (get_progress task_id (before @ [tbl1] @ later))"
    by (simp add: get_progress_sent observed_def upto_terminal_twice)
qed

theorem event_stream_suppresses_repeats_witness:
  "current_progress (example_rounds ! 0) ''t1'' = current_progress (example_rounds ! 1) ''t1''
   \<and> fst (get_progress ''t1'' ([] @ [example_rounds ! 0, example_rounds ! 1] @ [Map.empty])) =
       fst (get_progress ''t1'' ([] @ [example_rounds ! 0] @ [Map.empty]))
   \<and> fst (get_progress ''t1'' [example_rounds ! 0, example_rounds ! 1]) = [connecting_record]"
proof -
  have same: "current_progress (example_rounds ! 0) ''t1'' =
     current_progress (example_rounds ! 1) ''t1''"
    by (simp add: example_rounds_def current_progress_def)
  from event_stream_suppresses_repeats
    [of "''t1''" "[]" None "Map.empty" "example_rounds ! 0" "example_rounds ! 1" "[]" "[Map.empty]"]
    same
  have 1: "fst (get_progress ''t1'' ([] @ [example_rounds ! 0, example_rounds ! 1] @ [Map.empty])) =
       fst (get_progress ''t1'' ([] @ [example_rounds ! 0] @ [Map.empty]))"
    by blast
  have 2: "fst (get_progress ''t1'' [example_rounds ! 0, example_rounds ! 1]) = [connecting_record]"
    by (simp add: get_progress_def example_rounds_def current_progress_def Let_def
        terminal_statuses_def connecting_record_def)
  from same 1 2 show ?thesis by simp
qed

section \<open>Properties of the interleaved operations\<close>

lemma sys_inv_initial: "sys_inv initial"
  by (simp add: sys_inv_def initial_def)

lemma sys_inv_write:
  assumes inv: "sys_inv s"
    and st: "status r \<in> stored_statuses"
    and ph: "reached_terminal r \<longrightarrow> ph t = Done"
    and same: "\<forall>u. u \<noteq> t \<longrightarrow> ph u = phase_of s u"
  shows "sys_inv \<lparr> table = (table s)(t \<mapsto> r), phase_of = ph \<rparr>"
  unfolding sys_inv_def
proof (intro allI impI)
  fix u q
  assume "table \<lparr> table = (table s)(t \<mapsto> r), phase_of = ph \<rparr> u = Some q"
  then have q: "(if u = t then Some r else table s u) = Some q" by simp
  show "status q \<in> stored_statuses \<and>
        (reached_terminal q \<longrightarrow> phase_of \<lparr> table = (table s)(t \<mapsto> r), phase_of = ph \<rparr> u = Done)"
  proof (cases "u = t")
    case True
    with q st ph show ?thesis by simp
  next
    case False
    with q have "table s u = Some q" by simp
    with inv have "status q \<in> stored_statuses \<and> (reached_terminal q \<longrightarrow> phase_of s u = Done)"
      unfolding sys_inv_def by blast
    with False same show ?thesis by simp
  qed
qed

lemma sys_inv_remove:
  assumes inv: "sys_inv s"
  shows "sys_inv (s\<lparr> table := cleanup_task t (table s) \<rparr>)"
  unfolding sys_inv_def
proof (intro allI impI)
  fix u q
  assume a: "table (s\<lparr> table := cleanup_task t (table s) \<rparr>) u = Some q"
  then have "table s u = Some q"
    by (auto simp: cleanup_task_def split: if_splits)
  with inv have "status q \<in> stored_statuses \<and> (reached_terminal q \<longrightarrow> phase_of s u = Done)"
    unfolding sys_inv_def by blast
  then show "status q \<in> stored_statuses \<and>
        (reached_terminal q \<longrightarrow> phase_of (s\<lparr> table := cleanup_task t (table s) \<rparr>) u = Done)"
    by simp
qed

lemma worker_after_table:
  "\<exists>r. snd (worker_after t (returned, tbl)) = tbl(t \<mapsto> r) \<and> reached_terminal r \<and>
       status r \<in> stored_statuses"
  by (cases returned)
     (auto simp: worker_after_def worker_result_def worker_except_def completed_record_def
        error_record_def reached_terminal_def stored_statuses_def split: option.splits)

lemma progress_callback_table:
  "snd (progress_callback fmt t ev tbl) = tbl \<or>
   (\<exists>r. snd (progress_callback fmt t ev tbl) = tbl(t \<mapsto> r) \<and>
        \<not> reached_terminal r \<and> status r \<in> stored_statuses)"
  by (auto simp: progress_callback_def reached_terminal_def stored_statuses_def
      split: option.splits)

lemma sys_step_inv:
  assumes inv: "sys_inv s" and step: "sys_step fmt a s = Some s'"
  shows "sys_inv s'"
proof (cases a)
  case (Launch t)
  with step have s': "s' = \<lparr> table = (table s)(t \<mapsto> connecting_record),
                              phase_of = (phase_of s)(t := Running) \<rparr>"
    by (auto simp: worker_launch_def split: if_splits)
  have "status connecting_record \<in> stored_statuses" "\<not> reached_terminal connecting_record"
    by (simp_all add: connecting_record_def stored_statuses_def reached_terminal_def)
  then show ?thesis unfolding s' by (intro sys_inv_write [OF inv]) simp_all
next
  case (Progress t ev)
  with step have s': "s' = s\<lparr> table := snd (progress_callback fmt t ev (table s)) \<rparr>"
    by (auto split: if_splits)
  from progress_callback_table [of fmt t ev "table s"] show ?thesis
  proof
    assume "snd (progress_callback fmt t ev (table s)) = table s"
    with inv s' show ?thesis by simp
  next
    assume "\<exists>r. snd (progress_callback fmt t ev (table s)) = (table s)(t \<mapsto> r) \<and>
        \<not> reached_terminal r \<and> status r \<in> stored_statuses"
    then obtain r where r: "snd (progress_callback fmt t ev (table s)) = (table s)(t \<mapsto> r)"
      and nt: "\<not> reached_terminal r" and st: "status r \<in> stored_statuses" by blast
    have "s' = \<lparr> table = (table s)(t \<mapsto> r), phase_of = phase_of s \<rparr>"
      using s' r by simp
    moreover have "sys_inv \<lparr> table = (table s)(t \<mapsto> r), phase_of = phase_of s \<rparr>"
      using st nt by (intro sys_inv_write [OF inv]) simp_all
    ultimately show ?thesis by simp
  qed
next
  case (Conclude t returned)
  with step have s': "s' = \<lparr> table = snd (worker_after t (returned, table s)),
                  phase_of = (phase_of s)(t := Done) \<rparr>"
    by (auto split: if_splits)
  from worker_after_table [of t returned "table s"] obtain r
    where r: "snd (worker_after t (returned, table s)) = (table s)(t \<mapsto> r)"
      and st: "status r \<in> stored_statuses" by blast
  show ?thesis unfolding s' r using st by (intro sys_inv_write [OF inv]) simp_all
next
  case (Read t)
  with inv step show ?thesis by simp
next
  case (Cleanup t)
  with step have "s' = s\<lparr> table := cleanup_task t (table s) \<rparr>" by simp
  with sys_inv_remove [OF inv] show ?thesis by simp
qed

lemma run_inv: "sys_inv s \<Longrightarrow> run fmt acts s = Some s' \<Longrightarrow> sys_inv s'"
proof (induction acts arbitrary: s)
  case Nil
  then show ?case by simp
next
  case (Cons a acts)
  then show ?case by (auto split: option.splits dest: sys_step_inv)
qed

lemma reachable_inv: "run fmt acts initial = Some s \<Longrightarrow> sys_inv s"
  using run_inv [OF sys_inv_initial] .

lemma cleanup_task_at [simp]: "cleanup_task t tbl t = None"
  by (auto simp: cleanup_task_def)

lemma cleanup_task_other [simp]: "u \<noteq> t \<Longrightarrow> cleanup_task t tbl u = tbl u"
  by (auto simp: cleanup_task_def)

lemma example_run:
  "run example_fmt example_actions initial =
     Some \<lparr> table = [''t1'' \<mapsto> completed_record ''a.mp4''],
            phase_of = (\<lambda>_. Not_started)(''t1'' := Done, ''t2'' := Running) \<rparr>"
  by (simp add: example_actions_def initial_def worker_launch_def progress_callback_def
      finished_info_def worker_after_def worker_result_def cleanup_task_def connecting_record_def
      fun_upd_twist)

text \<open>
  Claim C5. For a task id that is not in the table (never launched, or cleaned up), the
  read gives the record with status \<^verbatim>\<open>not_found\<close>, no record in the table has that status,
  and a subscription sends this one event and ends in its first round.
\<close>

theorem absent_task_not_found:
  assumes "run fmt acts initial = Some s" and "table s task_id = None"
  shows "current_progress (table s) task_id = not_found_record
         \<and> status (current_progress (table s) task_id) = ''not_found''
         \<and> (\<forall>t r. table s t = Some r \<longrightarrow> status r \<noteq> ''not_found'')
         \<and> get_progress task_id (table s # later) = ([not_found_record], True)"
proof (intro conjI)
  show c: "current_progress (table s) task_id = not_found_record"
    using assms(2) by (simp add: current_progress_def)
  show "status (current_progress (table s) task_id) = ''not_found''"
    by (simp add: c not_found_record_def)
  from reachable_inv [OF assms(1)]
  have "\<forall>t r. table s t = Some r \<longrightarrow> status r \<in> stored_statuses"
    unfolding sys_inv_def by blast
  moreover have "''not_found'' \<notin> stored_statuses"
    by (simp add: stored_statuses_def)
  ultimately show "\<forall>t r. table s t = Some r \<longrightarrow> status r \<noteq> ''not_found''"
    by metis
  show "get_progress task_id (table s # later) = ([not_found_record], True)"
    by (simp add: get_progress_def c Let_def not_found_record_def terminal_statuses_def)
qed

theorem absent_task_not_found_witness:
  "run example_fmt example_actions initial \<noteq> None
   \<and> table (the (run example_fmt example_actions initial)) ''t2'' = None
   \<and> get_progress ''t2'' [table (the (run example_fmt example_actions initial)), Map.empty]
       = ([not_found_record], True)
   \<and> get_progress ''never'' [table (the (run example_fmt example_actions initial))]
       = ([not_found_record], True)"
proof -
  let ?s = "\<lparr> table = [''t1'' \<mapsto> completed_record ''a.mp4''],
            phase_of = (\<lambda>_. Not_started)(''t1'' := Done, ''t2'' := Running) \<rparr>"
  have r: "run example_fmt example_actions initial = Some ?s" by (rule example_run)
  have a: "table ?s ''t2'' = None" and b: "table ?s ''never'' = None" by simp_all
  from absent_task_not_found [OF r a, of "[Map.empty]"]
       absent_task_not_found [OF r b, of "[]"] r
  show ?thesis by simp
qed







section \<open>Properties of the file name\<close>



























section \<open>Properties of the streaming delivery\<close>





lemma stream_download_started:
  "cons \<noteq> Closes_after 0 \<Longrightarrow>
   stream_download engine env url format_choice cons fs =
     \<lparr> delivered = fst (stream_body engine env url format_choice cons
                          (fetched engine env url format_choice fs)),
       ended = snd (stream_body engine env url format_choice cons
                      (fetched engine env url format_choice fs)),
       fs_after = cleanup_temp env (snd (fetched engine env url format_choice fs)) \<rparr>"
  by (simp add: stream_download_def Let_def case_prod_unfold)


lemma remux_fetched:
  "fetched remuxing_engine env url format_choice Map.empty =
     (Returns (), [tmp_dir env \<mapsto> [(''clip.mkv'', ''0123456789'')]])"
  by (simp add: fetched_def remuxing_engine_def)




lemma py_dirname_join:
  assumes "CHR ''/'' \<notin> set name"
  shows "py_dirname (d @ CHR ''/'' # name) = d"
proof -
  have "dropWhile (\<lambda>c. c \<noteq> CHR ''/'') (rev name @ (CHR ''/'' # rev d)) =
        dropWhile (\<lambda>c. c \<noteq> CHR ''/'') (CHR ''/'' # rev d)"
    by (rule dropWhile_append2) (use assms in auto)
  then show ?thesis by (simp add: py_dirname_def)
qed

lemma py_basename_join:
  assumes "CHR ''/'' \<notin> set name"
  shows "py_basename (d @ CHR ''/'' # name) = name"
proof -
  have "takeWhile (\<lambda>c. c \<noteq> CHR ''/'') (rev name @ (CHR ''/'' # rev d)) =
        rev name @ takeWhile (\<lambda>c. c \<noteq> CHR ''/'') (CHR ''/'' # rev d)"
    by (rule takeWhile_append2) (use assms in auto)
  then show ?thesis by (simp add: py_basename_def)
qed

lemma lookup_first:
  assumes "fs d = Some ((name, content) # others)" and "CHR ''/'' \<notin> set name"
  shows "lookup_file fs (d @ CHR ''/'' # name) = Some content"
  using assms by (simp add: lookup_file_def py_dirname_join py_basename_join)

lemma chosen_first:
  assumes "\<not> path_exists fs predicted" and "fs d = Some ((name, content) # others)"
  shows "chosen_file fs d predicted = d @ CHR ''/'' # name"
  using assms by (simp add: chosen_file_def glob_all_def)

lemma concat_chunks_of: "0 < n \<Longrightarrow> concat (chunks_of n bs) = bs"
proof (induction n bs rule: chunks_of.induct)
  case (1 n bs)
  show ?case
  proof (cases "bs = []")
    case True
    then show ?thesis by (simp add: chunks_of.simps)
  next
    case False
    with 1 have "concat (chunks_of n (drop n bs)) = drop n bs" by simp
    with False 1(2) show ?thesis by (subst chunks_of.simps) simp
  qed
qed

lemma deliver_all: "deliver cs k None None = (cs, Exhausted)"
  by (induction cs arbitrary: k) simp_all

lemma deliver_prefix: "prefix (fst (deliver cs k fault budget)) cs"
proof (induction cs arbitrary: k budget)
  case Nil
  then show ?case by simp
next
  case (Cons c cs)
  from Cons [of "Suc k" "map_option (\<lambda>n. n - 1) budget"] show ?case
    by (simp add: case_prod_unfold)
qed

lemma remux_missing:
  "\<not> path_exists [''/tmp/tmpab12'' \<mapsto> [(''clip.mkv'', ''0123456789'')]]
       (actual_filename ''video_best'' ''/tmp/tmpab12/clip.mp4'')"
  by (simp add: path_exists_def lookup_file_def actual_filename_def startswith_def
      py_dirname_def py_basename_def)

text \<open>
  Claim C9. When, after the library's calls, the predicted file name does not exist and
  the temporary directory has a first file, the file chosen for streaming is that first
  file. Once the generator is consumed, every chunk delivered comes from that file, in
  order: all of them when nothing fails and the consumer takes them all.
\<close>

theorem falls_back_to_first_file:
  assumes "fetched engine env url format_choice fs = (Returns (), fs')"
    and "ending (engine (tmp_dir env) url format_choice) = Info_prepared prepared"
    and "\<not> path_exists fs' (actual_filename format_choice prepared)"
    and "fs' (tmp_dir env) = Some ((name, content) # others)"
  shows "chosen_file fs' (tmp_dir env) (actual_filename format_choice prepared) =
           tmp_dir env @ ''/'' @ name
         \<and> (cons \<noteq> Closes_after 0 \<and> CHR ''/'' \<notin> set name \<longrightarrow>
              (delivered (stream_download engine env url format_choice cons fs),
               ended (stream_download engine env url format_choice cons fs)) =
              (case open_fault env of
                 Some e \<Rightarrow> ([], Faulted e)
               | None \<Rightarrow> deliver (chunks_of 8192 content) 0 (read_fault env) (budget_of cons))
              \<and> prefix (delivered (stream_download engine env url format_choice cons fs))
                   (chunks_of 8192 content)
              \<and> (cons = Exhausts \<and> open_fault env = None \<and> read_fault env = None \<longrightarrow>
                   concat (delivered (stream_download engine env url format_choice cons fs))
                     = content
                   \<and> ended (stream_download engine env url format_choice cons fs) = Exhausted))"
proof (intro conjI impI)
  let ?f = "tmp_dir env @ CHR ''/'' # name"
  let ?r = "stream_download engine env url format_choice cons fs"
  let ?d = "deliver (chunks_of 8192 content) 0 (read_fault env) (budget_of cons)"
  have ch: "chosen_file fs' (tmp_dir env) (actual_filename format_choice prepared) = ?f"
    using assms(3,4) by (rule chosen_first)
  then show "chosen_file fs' (tmp_dir env) (actual_filename format_choice prepared) =
           tmp_dir env @ ''/'' @ name"
    by simp
  assume started: "cons \<noteq> Closes_after 0 \<and> CHR ''/'' \<notin> set name"
  then have lk: "lookup_file fs' ?f = Some content"
    using assms(4) by (simp add: lookup_first)
  then have ex: "path_exists fs' ?f" by (simp add: path_exists_def)
  have body: "stream_body engine env url format_choice cons (Returns (), fs') =
      (case open_fault env of Some e \<Rightarrow> ([], Faulted e) | None \<Rightarrow> ?d)"
    by (cases "open_fault env") (simp_all add: stream_body_def Let_def assms(2) ch ex lk)
  from started have "stream_download engine env url format_choice cons fs =
     \<lparr> delivered = fst (stream_body engine env url format_choice cons
                          (fetched engine env url format_choice fs)),
       ended = snd (stream_body engine env url format_choice cons
                      (fetched engine env url format_choice fs)),
       fs_after = cleanup_temp env (snd (fetched engine env url format_choice fs)) \<rparr>"
    by (simp add: stream_download_started)
  then show d: "(delivered ?r, ended ?r) =
      (case open_fault env of Some e \<Rightarrow> ([], Faulted e) | None \<Rightarrow> ?d)"
    by (simp add: assms(1) body)
  show "prefix (delivered ?r) (chunks_of 8192 content)"
  proof (cases "open_fault env")
    case None
    with d have "delivered ?r = fst ?d" by (simp add: prod_eq_iff)
    then show ?thesis by (simp add: deliver_prefix)
  next
    case (Some e)
    with d have "delivered ?r = []" by simp
    then show ?thesis by simp
  qed
  assume c: "cons = Exhausts \<and> open_fault env = None \<and> read_fault env = None"
  with d have all: "(delivered ?r, ended ?r) = (chunks_of 8192 content, Exhausted)"
    by (simp add: budget_of_def deliver_all)
  from all show "concat (delivered ?r) = content" by (simp add: concat_chunks_of)
  from all show "ended ?r = Exhausted" by simp
qed

theorem falls_back_to_first_file_witness:
  "concat (delivered (stream_download remuxing_engine calm_env ''https://example.com/v1''
      ''video_best'' Exhausts Map.empty)) = ''0123456789''
   \<and> ended (stream_download remuxing_engine calm_env ''https://example.com/v1''
      ''video_best'' Exhausts Map.empty) = Exhausted"
proof -
  have t: "tmp_dir calm_env = ''/tmp/tmpab12''" by (simp add: calm_env_def)
  have 1: "Exhausts \<noteq> Closes_after 0" by simp
  have 2: "fetched remuxing_engine calm_env ''https://example.com/v1'' ''video_best'' Map.empty =
     (Returns (), [''/tmp/tmpab12'' \<mapsto> [(''clip.mkv'', ''0123456789'')]])"
    by (simp add: remux_fetched t)
  have 3: "ending (remuxing_engine (tmp_dir calm_env) ''https://example.com/v1'' ''video_best'')
      = Info_prepared ''/tmp/tmpab12/clip.mp4''"
    by (simp add: remuxing_engine_def t)
  have 5: "[''/tmp/tmpab12'' \<mapsto> [(''clip.mkv'', ''0123456789'')]] (tmp_dir calm_env) =
      Some ((''clip.mkv'', ''0123456789'') # [])"
    by (simp add: t)
  have 6: "CHR ''/'' \<notin> set ''clip.mkv''" by simp
  have 7: "open_fault calm_env = None" and 8: "read_fault calm_env = None"
    by (simp_all add: calm_env_def)
  from falls_back_to_first_file [OF 2 3 remux_missing 5, of Exhausts] 1 6 7 8
  show ?thesis by simp
qed

end
